theory Spec2Isabelle
  imports Complex_Main "HOL-Library.Log_Nat"
begin

section \<open>Cards (types/Card.ts)\<close>

datatype CardSuit = HEARTS | CLUBS | DIAMONDS | SPADES

text \<open>
  The thirteen ranks of \<^verbatim>\<open>CardRank\<close>: the strings "2" .. "10", "J", "Q", "K", "A".
\<close>

datatype CardRank =
  Rank2 | Rank3 | Rank4 | Rank5 | Rank6 | Rank7 | Rank8 | Rank9 | Rank10 | J | Q | K | A

record Card =
  code :: string
  suit :: CardSuit
  rank :: CardRank

text \<open>
  \<^verbatim>\<open>getCardValue\<close>: an Ace is 11, "J", "Q", "K" are 10, and every other rank is the
  number \<^verbatim>\<open>parseInt\<close> reads from its string. On the four letter ranks
  \<^verbatim>\<open>parseInt\<close> gives NaN in the source; \<^verbatim>\<open>getCardValue\<close> never asks for it there, and
  the last equation below only makes the function total.
\<close>

fun parseInt :: "CardRank \<Rightarrow> int" where
  "parseInt Rank2 = 2"
| "parseInt Rank3 = 3"
| "parseInt Rank4 = 4"
| "parseInt Rank5 = 5"
| "parseInt Rank6 = 6"
| "parseInt Rank7 = 7"
| "parseInt Rank8 = 8"
| "parseInt Rank9 = 9"
| "parseInt Rank10 = 10"
| "parseInt r = 0"

definition getCardValue :: "Card \<Rightarrow> int" where
  "getCardValue c =
     (if rank c = A then 11
      else if rank c \<in> set [J, Q, K] then 10
      else parseInt (rank c))"

section \<open>Participant (shared/Participant.ts)\<close>

text \<open>
  A participant owns its hand; \<^verbatim>\<open>setCards\<close> replaces it and \<^verbatim>\<open>addCard\<close> pushes
  one card at its end. The methods below that only read the hand take \<^verbatim>\<open>this.cards\<close>.
\<close>

record Participant =
  cards :: "Card list"

definition setCards :: "Card list \<Rightarrow> 'a Participant_scheme \<Rightarrow> 'a Participant_scheme" where
  "setCards cs p = p\<lparr>cards := cs\<rparr>"

definition addCard :: "Card \<Rightarrow> 'a Participant_scheme \<Rightarrow> 'a Participant_scheme" where
  "addCard c p = p\<lparr>cards := cards p @ [c]\<rparr>"

record CardTotal =
  totalValue :: int
  hasSoftAce :: bool

text \<open>
  First pass of \<^verbatim>\<open>getCardTotal\<close>: the loop over the cards, carrying
  \<^verbatim>\<open>numberOfAces\<close> and \<^verbatim>\<open>totalValue\<close>.
\<close>

fun firstPass :: "Card list \<Rightarrow> int \<times> int \<Rightarrow> int \<times> int" where
  "firstPass [] (numberOfAces, tv) = (numberOfAces, tv)"
| "firstPass (c # rest) (numberOfAces, tv) =
     (if rank c = A then firstPass rest (numberOfAces + 1, tv)
      else firstPass rest (numberOfAces, tv + getCardValue c))"

text \<open>
  Second pass: \<^verbatim>\<open>for (let i = numberOfAces - 1; i >= 0; i--)\<close>, carrying
  \<^verbatim>\<open>totalValue\<close> and \<^verbatim>\<open>hasSoftAce\<close>.
\<close>

function secondPass :: "int \<Rightarrow> int \<times> bool \<Rightarrow> int \<times> bool" where
  "secondPass i (tv, soft) =
     (if i \<ge> 0 then
        (if i = 0 \<and> tv + 11 \<le> 21 then secondPass (i - 1) (tv + 11, True)
         else secondPass (i - 1) (tv + 1, soft))
      else (tv, soft))"
  by pat_completeness auto
termination
  by (relation "measure (\<lambda>(i, acc). nat (i + 1))") auto

declare secondPass.simps [simp del]

definition getCardTotal :: "Card list \<Rightarrow> CardTotal" where
  "getCardTotal cs =
     (case firstPass cs (0, 0) of (numberOfAces, tv) \<Rightarrow>
        (case secondPass (numberOfAces - 1) (tv, False) of (v, soft) \<Rightarrow>
           \<lparr>totalValue = v, hasSoftAce = soft\<rparr>))"

definition hasBlackjack :: "Card list \<Rightarrow> bool" where
  "hasBlackjack cs = (length cs = 2 \<and> totalValue (getCardTotal cs) = 21)"

section \<open>Errors\<close>

text \<open>
  A thrown \<^verbatim>\<open>Error\<close>: its message and, when it wraps another one, its
  \<^verbatim>\<open>cause\<close>. A rejected promise of the card service is such a value too.
\<close>

datatype Error = Error string "Error option"

text \<open>The decimal digits of a count, as string concatenation with a number writes them.\<close>

function toString :: "nat \<Rightarrow> string" where
  "toString n =
     (if n < 10 then [''0123456789'' ! n]
      else toString (n div 10) @ [''0123456789'' ! (n mod 10)])"
  by pat_completeness auto
termination
  by (relation "measure id") auto

declare toString.simps [simp del]

section \<open>Numbers\<close>

text \<open>
  Every \<^verbatim>\<open>number\<close> of the source is an IEEE 754 double. Card values and hand totals are
  small integers and are modelled by \<open>int\<close>; the count of cards left in the shoe is an
  \<open>int\<close> as well. Money (balance, bet, payout) is modelled by \<open>rat\<close> with exact
  arithmetic: it is only added, subtracted and multiplied by 1.5, so the double result
  is the exact one whenever the bet is an integer and the amounts stay below \<open>2 ^ 50\<close>.

  The cut card is different: \<^verbatim>\<open>0.775\<close> is no double, so the product
  \<^verbatim>\<open>remaining * (1 - CUT_CARD_PERCENTAGE)\<close> is rounded at every shoe size, and the
  rounding decides the result when the exact product is close to a half (5 decks: 260
  cards, exact product 58.5, the source computes 58). The operations the constructor
  uses are therefore modelled with their rounding: \<open>fl\<close> rounds a rational to the nearest
  double, ties to the even significand (normal range only: no overflow, no subnormals);
  \<open>ilog2 x\<close> is the binary exponent of \<open>x > 0\<close>, the \<open>e\<close> with
  \<open>2 ^ e \<le> x < 2 ^ (e + 1)\<close>.
\<close>

definition ilog2 :: "rat \<Rightarrow> int" where
  "ilog2 x =
     (if 1 \<le> x then int (floorlog 2 (nat \<lfloor>x\<rfloor>)) - 1
      else - int (floorlog 2 (nat (\<lceil>1 / x\<rceil> - 1))))"

definition roundTiesToEven :: "rat \<Rightarrow> int" where
  "roundTiesToEven q =
     (let n = \<lfloor>q\<rfloor>; d = q - of_int n
      in if d < 1 / 2 then n else if 1 / 2 < d then n + 1 else if even n then n else n + 1)"

definition fl :: "rat \<Rightarrow> rat" where
  "fl x =
     (if x = 0 then 0
      else (let u = 2 powi (ilog2 \<bar>x\<bar> - 52)
            in sgn x * of_int (roundTiesToEven (\<bar>x\<bar> / u)) * u))"

definition fmul :: "rat \<Rightarrow> rat \<Rightarrow> rat" where
  "fmul x y = fl (x * y)"

definition fsub :: "rat \<Rightarrow> rat \<Rightarrow> rat" where
  "fsub x y = fl (x - y)"

text \<open>\<^verbatim>\<open>Math.round\<close>: the nearest integer, a tie going up.\<close>

definition Math_round :: "rat \<Rightarrow> int" where
  "Math_round x = \<lfloor>x + 1 / 2\<rfloor>"

section \<open>DeckManager (game/DeckManager.ts)\<close>

text \<open>
  The card service is outside the program. Each call of the client functions
  \<^verbatim>\<open>createDeck\<close>, \<^verbatim>\<open>drawCard\<close> and \<^verbatim>\<open>reshuffleDeck\<close> is modelled by the function that
  answers it: from the arguments of the call to either the rejection or the resolved value
  (\<open>(deckId, remaining)\<close>, \<open>(cards, remaining)\<close>, \<open>remaining\<close>).
\<close>

type_synonym createDeck_api = "int \<Rightarrow> Error + string \<times> int"
type_synonym drawCard_api = "string \<Rightarrow> int \<Rightarrow> Error + Card list \<times> int"
type_synonym reshuffleDeck_api = "string \<Rightarrow> Error + int"

definition CUT_CARD_PERCENTAGE :: rat where
  "CUT_CARD_PERCENTAGE = fl (775 / 1000)"

record DeckManager =
  deckId :: string
  remaining :: int
  cutCardPosition :: int

text \<open>The constructor, and \<^verbatim>\<open>setup\<close>, which asks the card service for a new shoe.\<close>

definition DeckManager_new :: "string \<Rightarrow> int \<Rightarrow> DeckManager" where
  "DeckManager_new did rem =
     \<lparr>deckId = did, remaining = rem,
      cutCardPosition = Math_round (fmul (of_int rem) (fsub 1 CUT_CARD_PERCENTAGE))\<rparr>"

definition DeckManager_setup :: "createDeck_api \<Rightarrow> int \<Rightarrow> Error + DeckManager" where
  "DeckManager_setup createDeck deckCount =
     (case createDeck deckCount of
        Inl err \<Rightarrow> Inl (Error ''Failed to setup deck manager'' (Some err))
      | Inr (did, rem) \<Rightarrow> Inr (DeckManager_new did rem))"

text \<open>
  The three operations return what the method returns or throws, and the deck manager
  as the method leaves it. A throw inside \<^verbatim>\<open>try\<close> comes out wrapped by the
  \<^verbatim>\<open>catch\<close>, the count mismatch of \<^verbatim>\<open>drawCard\<close> included.
\<close>

definition DeckManager_drawCard ::
  "drawCard_api \<Rightarrow> DeckManager \<Rightarrow> (Error + Card) \<times> DeckManager" where
  "DeckManager_drawCard drawCard dm =
     (case drawCard (deckId dm) 1 of
        Inl err \<Rightarrow> (Inl (Error ''Failed to draw card'' (Some err)), dm)
      | Inr (cs, rem) \<Rightarrow>
          if length cs \<noteq> 1 then
            (Inl (Error ''Failed to draw card''
               (Some (Error (''Wrong number of cards drawn.  Expected 1, Received: ''
                               @ toString (length cs)) None))), dm)
          else (Inr (cs ! 0), dm\<lparr>remaining := rem\<rparr>))"

definition DeckManager_drawCards ::
  "drawCard_api \<Rightarrow> int \<Rightarrow> DeckManager \<Rightarrow> (Error + Card list) \<times> DeckManager" where
  "DeckManager_drawCards drawCard count dm =
     (case drawCard (deckId dm) count of
        Inl err \<Rightarrow> (Inl (Error ''Failed to draw cards from deck'' (Some err)), dm)
      | Inr (cs, rem) \<Rightarrow> (Inr cs, dm\<lparr>remaining := rem\<rparr>))"

definition reshuffle :: "reshuffleDeck_api \<Rightarrow> DeckManager \<Rightarrow> Error option \<times> DeckManager" where
  "reshuffle reshuffleDeck dm =
     (case reshuffleDeck (deckId dm) of
        Inl err \<Rightarrow> (Some (Error ''Failed to reshuffle deck'' (Some err)), dm)
      | Inr rem \<Rightarrow> (None, dm\<lparr>remaining := rem\<rparr>))"

definition shouldReshuffle :: "DeckManager \<Rightarrow> bool" where
  "shouldReshuffle dm = (remaining dm < cutCardPosition dm)"

text \<open>
  Any history of a deck manager after its creation: the calls made on it, each with the
  answer the card service gave.
\<close>

datatype DeckCall =
  DrawCard drawCard_api
| DrawCards drawCard_api int
| Reshuffle reshuffleDeck_api
| ShouldReshuffle

fun call :: "DeckCall \<Rightarrow> DeckManager \<Rightarrow> DeckManager" where
  "call (DrawCard api) dm = snd (DeckManager_drawCard api dm)"
| "call (DrawCards api count) dm = snd (DeckManager_drawCards api count dm)"
| "call (Reshuffle api) dm = snd (reshuffle api dm)"
| "call ShouldReshuffle dm = dm"

fun calls :: "DeckCall list \<Rightarrow> DeckManager \<Rightarrow> DeckManager" where
  "calls [] dm = dm"
| "calls (c # cs) dm = calls cs (call c dm)"

section \<open>Dealer (game/Dealer.ts)\<close>

definition getUpcard :: "Card list \<Rightarrow> Card option" where
  "getUpcard cs = (if length cs > 0 then Some (cs ! 0) else None)"

definition shouldHit :: "Card list \<Rightarrow> bool" where
  "shouldHit cs =
     (let t = getCardTotal cs
      in totalValue t < 17 \<or> (totalValue t = 17 \<and> hasSoftAce t))"

section \<open>Player (player/Player.ts)\<close>

text \<open>
  The storage a player saves itself to is outside the program; \<^verbatim>\<open>save\<close> changes no
  field and is left out.
\<close>

record Player = Participant +
  bet :: rat
  balance :: rat
  username :: string

definition STARTING_BALANCE :: rat where
  "STARTING_BALANCE = 100"

definition Player_new :: "string \<Rightarrow> rat \<Rightarrow> Player" where
  "Player_new name bal = \<lparr>cards = [], bet = 0, balance = bal, username = name\<rparr>"

definition adjustBalance :: "rat \<Rightarrow> Player \<Rightarrow> Player" where
  "adjustBalance amount p = p\<lparr>balance := balance p + amount\<rparr>"


section \<open>GameEngine (game/GameEngine.ts)\<close>

datatype Outcome =
  PlayerWon | DealerWon | Push | PlayerWonWithBlackjack | DealerWonWithBlackjack

record GameEngine =
  deckManager :: "DeckManager option"
  dealer :: Participant
  player :: Player
  outcome :: "Outcome option"
  winnings :: "rat option"

definition GameEngine_new :: "Player \<Rightarrow> GameEngine" where
  "GameEngine_new p =
     \<lparr>deckManager = None, dealer = \<lparr>cards = []\<rparr>, player = p, outcome = None, winnings = None\<rparr>"

definition adjustPlayerBalance :: "rat \<Rightarrow> GameEngine \<Rightarrow> GameEngine" where
  "adjustPlayerBalance amount g = g\<lparr>player := adjustBalance amount (player g)\<rparr>"


text \<open>
  \<^verbatim>\<open>drawCard\<close> of the engine: the missing deck manager is thrown before the
  \<^verbatim>\<open>try\<close>, a failure of the deck manager is wrapped.
\<close>

definition GameEngine_drawCard ::
  "drawCard_api \<Rightarrow> GameEngine \<Rightarrow> (Error + Card) \<times> GameEngine" where
  "GameEngine_drawCard api g =
     (case deckManager g of
        None \<Rightarrow> (Inl (Error ''Deck Manager undefined'' None), g)
      | Some dm \<Rightarrow>
          (case DeckManager_drawCard api dm of
             (Inl err, dm') \<Rightarrow>
               (Inl (Error ''Failed to draw card'' (Some err)), g\<lparr>deckManager := Some dm'\<rparr>)
           | (Inr c, dm') \<Rightarrow> (Inr c, g\<lparr>deckManager := Some dm'\<rparr>)))"

text \<open>
  \<^verbatim>\<open>hitDealer\<close>. The card a successful draw returns is an object, so the guard
  \<^verbatim>\<open>if (!card) return\<close> never fires.
\<close>

definition hitDealer :: "drawCard_api \<Rightarrow> GameEngine \<Rightarrow> Error option \<times> GameEngine" where
  "hitDealer api g =
     (case GameEngine_drawCard api g of
        (Inl err, g') \<Rightarrow> (Some (Error ''Failed to hit dealer'' (Some err)), g')
      | (Inr c, g') \<Rightarrow> (None, g'\<lparr>dealer := addCard c (dealer g')\<rparr>))"

text \<open>
  \<^verbatim>\<open>playThroughDealer\<close>: \<^verbatim>\<open>while (this.dealer.shouldHit())\<close>. The card service is asked
  once per round of the loop; \<open>src k\<close> answers the call number \<open>k\<close>.
\<close>

function playThroughDealer ::
  "(nat \<Rightarrow> drawCard_api) \<Rightarrow> nat \<Rightarrow> GameEngine \<Rightarrow> Error option \<times> GameEngine" where
  "playThroughDealer src k g =
     (if shouldHit (cards (dealer g)) then
        (case hitDealer (src k) g of
           (Some err, g') \<Rightarrow>
             (Some (Error ''Failing to play through hitting dealer'' (Some err)), g')
         | (None, g') \<Rightarrow> playThroughDealer src (k + 1) g')
      else (None, g))"
  by pat_completeness auto

text \<open>
  \<^verbatim>\<open>applyPayout\<close>: the \<^verbatim>\<open>switch\<close> over the recorded outcome; no case matches
  \<^verbatim>\<open>null\<close>, which leaves the payout at 0.
\<close>

definition applyPayout :: "GameEngine \<Rightarrow> GameEngine" where
  "applyPayout g =
     (let b = bet (player g);
          payout = (case outcome g of
                      Some PlayerWonWithBlackjack \<Rightarrow> b + b * 1.5
                    | Some PlayerWon \<Rightarrow> b + b
                    | Some Push \<Rightarrow> b
                    | Some DealerWon \<Rightarrow> 0
                    | Some DealerWonWithBlackjack \<Rightarrow> 0
                    | None \<Rightarrow> 0)
      in adjustPlayerBalance payout (g\<lparr>winnings := Some payout\<rparr>))"

definition evaluateOutcome :: "GameEngine \<Rightarrow> GameEngine" where
  "evaluateOutcome g =
     (let playerTotal = totalValue (getCardTotal (cards (player g)));
          dealerTotal = totalValue (getCardTotal (cards (dealer g)));
          playerHasBlackjack = hasBlackjack (cards (player g));
          dealerHasBlackjack = hasBlackjack (cards (dealer g));
          result =
            (if playerHasBlackjack \<and> \<not> dealerHasBlackjack then PlayerWonWithBlackjack
             else if dealerHasBlackjack \<and> \<not> playerHasBlackjack then DealerWonWithBlackjack
             else if playerTotal > 21 then DealerWon
             else if dealerTotal > 21 then PlayerWon
             else if playerTotal > dealerTotal then PlayerWon
             else if dealerTotal > playerTotal then DealerWon
             else Push)
      in applyPayout (g\<lparr>outcome := Some result\<rparr>))"

section \<open>Hand totals: the quantities the properties are stated with\<close>

text \<open>
  The hand with every Ace counted as 1 (the least total any valuation of the Aces can
  give), and whether the hand holds an Ace at all.
\<close>

definition aceAsOne :: "Card \<Rightarrow> int" where
  "aceAsOne c = (if rank c = A then 1 else getCardValue c)"

definition hardTotal :: "Card list \<Rightarrow> int" where
  "hardTotal cs = sum_list (map aceAsOne cs)"

definition hasAce :: "Card list \<Rightarrow> bool" where
  "hasAce cs = (\<exists>c \<in> set cs. rank c = A)"


text \<open>
  The valuations of a hand the specification speaks of. \<open>specValue\<close> is the value of one
  card: 2 to 10 at face value, J, Q and K as 10, an Ace as 11 when it is chosen to count
  so and as 1 otherwise. \<open>countedTotal cs as11\<close> is the total of the hand \<open>cs\<close> when
  \<open>as11\<close> says, card by card, whether it counts as 11. \<open>aceValuation\<close> admits the
  choices that mark Aces only, and at most one of them; \<open>achievable\<close> collects their totals.
\<close>

fun specValue :: "CardRank \<Rightarrow> bool \<Rightarrow> int" where
  "specValue A as11 = (if as11 then 11 else 1)"
| "specValue J as11 = 10"
| "specValue Q as11 = 10"
| "specValue K as11 = 10"
| "specValue Rank2 as11 = 2"
| "specValue Rank3 as11 = 3"
| "specValue Rank4 as11 = 4"
| "specValue Rank5 as11 = 5"
| "specValue Rank6 as11 = 6"
| "specValue Rank7 as11 = 7"
| "specValue Rank8 as11 = 8"
| "specValue Rank9 as11 = 9"
| "specValue Rank10 as11 = 10"

definition countedTotal :: "Card list \<Rightarrow> bool list \<Rightarrow> int" where
  "countedTotal cs as11 = sum_list (map (\<lambda>(c, b). specValue (rank c) b) (zip cs as11))"

definition aceValuation :: "Card list \<Rightarrow> bool list \<Rightarrow> bool" where
  "aceValuation cs as11 =
     (list_all2 (\<lambda>c b. b \<longrightarrow> rank c = A) cs as11 \<and> count_list as11 True \<le> 1)"

definition achievable :: "Card list \<Rightarrow> int set" where
  "achievable cs = {countedTotal cs as11 | as11. aceValuation cs as11}"


section \<open>States used in the examples\<close>

text \<open>
  An engine between rounds with the given hands, bet and balance, as the tests of the
  repository build it, and a card from its three fields.
\<close>

definition engineWith :: "Card list \<Rightarrow> Card list \<Rightarrow> rat \<Rightarrow> rat \<Rightarrow> GameEngine" where
  "engineWith playerCards dealerCards b bal =
     (let g = GameEngine_new (setCards playerCards ((Player_new ''Test Player'' bal)\<lparr>bet := b\<rparr>))
      in g\<lparr>dealer := setCards dealerCards (dealer g)\<rparr>)"

definition mkCard :: "string \<Rightarrow> CardSuit \<Rightarrow> CardRank \<Rightarrow> Card" where
  "mkCard cd s r = \<lparr>code = cd, suit = s, rank = r\<rparr>"

text \<open>
  A card service that answers a draw with the given cards and count of cards left,
  whatever was asked, as the mocked client of the tests does, and one that answers a
  reshuffle with the given count.
\<close>

definition answering :: "Card list \<Rightarrow> int \<Rightarrow> drawCard_api" where
  "answering cs rem = (\<lambda>did count. Inr (cs, rem))"

definition reshuffled :: "int \<Rightarrow> reshuffleDeck_api" where
  "reshuffled rem = (\<lambda>did. Inr rem)"

text \<open>
  A card service holding the given cards: it answers the call number \<open>k\<close> with the card
  at position \<open>k\<close> and the count of cards after it, and rejects a call past the last card.
\<close>

definition dealing :: "Card list \<Rightarrow> nat \<Rightarrow> drawCard_api" where
  "dealing shoe k =
     (\<lambda>did count.
        if k < length shoe then Inr ([shoe ! k], int (length shoe) - int k - 1)
        else Inl (Error ''Not enough cards remaining'' None))"

text \<open>A card service that answers the creation of a shoe with the given name and count.\<close>

definition created :: "string \<Rightarrow> int \<Rightarrow> createDeck_api" where
  "created did rem = (\<lambda>deckCount. Inr (did, rem))"

section \<open>The example states, field by field\<close>

lemma engineWith_eq:
  "engineWith playerCards dealerCards b bal =
     \<lparr>deckManager = None, dealer = \<lparr>cards = dealerCards\<rparr>,
      player = \<lparr>cards = playerCards, bet = b, balance = bal, username = ''Test Player''\<rparr>,
      outcome = None, winnings = None\<rparr>"
  by (simp add: engineWith_def GameEngine_new_def Player_new_def setCards_def)

section \<open>What the two passes compute\<close>

lemma firstPass_eq:
  "firstPass cs (n, t) =
     (n + int (length (filter (\<lambda>c. rank c = A) cs)),
      t + sum_list (map getCardValue (filter (\<lambda>c. rank c \<noteq> A) cs)))"
  by (induction cs arbitrary: n t) simp_all

lemma base_plus_aces:
  "sum_list (map getCardValue (filter (\<lambda>c. rank c \<noteq> A) cs))
     + int (length (filter (\<lambda>c. rank c = A) cs)) = hardTotal cs"
  by (induction cs) (simp_all add: hardTotal_def aceAsOne_def)

lemma secondPass_neg: "i < 0 \<Longrightarrow> secondPass i (t, s) = (t, s)"
  by (simp add: secondPass.simps)

lemma secondPass_zero:
  "secondPass 0 (t, s) = (if t + 11 \<le> 21 then (t + 11, True) else (t + 1, s))"
  by (simp add: secondPass.simps[of 0] secondPass_neg)

lemma secondPass_pos: "secondPass (int k) (t, s) = secondPass 0 (t + int k, s)"
proof (induction k arbitrary: t)
  case 0
  show ?case by simp
next
  case (Suc k)
  have "secondPass (int (Suc k)) (t, s) = secondPass (int k) (t + 1, s)"
    by (subst secondPass.simps) simp
  also have "\<dots> = secondPass 0 (t + 1 + int k, s)" by (rule Suc.IH)
  finally show ?case by (simp add: add.commute add.left_commute)
qed

lemma hasAce_filter: "hasAce cs \<longleftrightarrow> 0 < length (filter (\<lambda>c. rank c = A) cs)"
  by (auto simp: hasAce_def filter_empty_conv)

lemma getCardTotal_closed:
  "getCardTotal cs =
     (if hasAce cs \<and> hardTotal cs + 10 \<le> 21
      then \<lparr>totalValue = hardTotal cs + 10, hasSoftAce = True\<rparr>
      else \<lparr>totalValue = hardTotal cs, hasSoftAce = False\<rparr>)"
proof -
  define n where "n = length (filter (\<lambda>c. rank c = A) cs)"
  define b where "b = sum_list (map getCardValue (filter (\<lambda>c. rank c \<noteq> A) cs))"
  have fp: "firstPass cs (0, 0) = (int n, b)"
    by (simp add: firstPass_eq n_def b_def)
  have hard: "hardTotal cs = b + int n"
    using base_plus_aces[of cs] by (simp add: n_def b_def)
  show ?thesis
  proof (cases n)
    case 0
    then have "\<not> hasAce cs" by (simp add: hasAce_filter n_def)
    with 0 show ?thesis
      by (simp add: getCardTotal_def fp hard secondPass_neg)
  next
    case (Suc k)
    then have ace: "hasAce cs" by (simp add: hasAce_filter n_def)
    have "secondPass (int n - 1) (b, False) = secondPass 0 (b + int k, False)"
      using secondPass_pos[of k b False] Suc by simp
    with ace Suc show ?thesis
      by (simp add: getCardTotal_def fp hard secondPass_zero)
  qed
qed




section \<open>Valuations of the Aces\<close>

lemma specValue_nonAce: "rank c \<noteq> A \<Longrightarrow> specValue (rank c) b = getCardValue c"
  by (cases "rank c") (simp_all add: getCardValue_def)

lemma countedTotal_hard:
  "list_all2 (\<lambda>c b. b \<longrightarrow> rank c = A) cs bs \<Longrightarrow>
     countedTotal cs bs = hardTotal cs + 10 * int (count_list bs True)"
  by (induction cs bs rule: list_all2_induct)
     (auto simp: countedTotal_def hardTotal_def aceAsOne_def specValue_nonAce)

lemma allOnes_valuation: "aceValuation cs (replicate (length cs) False)"
  by (induction cs) (simp_all add: aceValuation_def)

lemma count_replicate_False: "count_list (replicate n False) True = 0"
  by (induction n) simp_all

lemma countedTotal_allOnes: "countedTotal cs (replicate (length cs) False) = hardTotal cs"
  using countedTotal_hard[of cs "replicate (length cs) False"] allOnes_valuation[of cs]
  by (simp add: aceValuation_def count_replicate_False)

lemma oneEleven_valuation:
  "hasAce cs \<Longrightarrow> \<exists>bs. aceValuation cs bs \<and> count_list bs True = 1"
proof (induction cs)
  case Nil
  then show ?case by (simp add: hasAce_def)
next
  case (Cons c cs)
  show ?case
  proof (cases "rank c = A")
    case True
    have "aceValuation (c # cs) (True # replicate (length cs) False)"
      using True allOnes_valuation[of cs] by (simp add: aceValuation_def count_replicate_False)
    moreover have "count_list (True # replicate (length cs) False) True = 1"
      by (simp add: count_replicate_False)
    ultimately show ?thesis by blast
  next
    case False
    with Cons.prems have "hasAce cs" by (simp add: hasAce_def)
    then obtain bs where "aceValuation cs bs" "count_list bs True = 1"
      using Cons.IH by blast
    then have "aceValuation (c # cs) (False # bs) \<and> count_list (False # bs) True = 1"
      by (simp add: aceValuation_def)
    then show ?thesis by blast
  qed
qed

lemma valuation_needs_ace:
  "list_all2 (\<lambda>c b. b \<longrightarrow> rank c = A) cs bs \<Longrightarrow> 0 < count_list bs True \<Longrightarrow> hasAce cs"
  by (induction cs bs rule: list_all2_induct) (auto simp: hasAce_def split: if_splits)

lemma achievable_eq:
  "achievable cs = (if hasAce cs then {hardTotal cs, hardTotal cs + 10} else {hardTotal cs})"
proof -
  have hard_in: "hardTotal cs \<in> achievable cs"
    unfolding achievable_def using allOnes_valuation[of cs] countedTotal_allOnes[of cs] by force
  have soft_in: "hardTotal cs + 10 \<in> achievable cs" if "hasAce cs"
  proof -
    from oneEleven_valuation[OF that] obtain bs where
      bs: "aceValuation cs bs" "count_list bs True = 1" by blast
    then have "countedTotal cs bs = hardTotal cs + 10"
      using countedTotal_hard[of cs bs] by (simp add: aceValuation_def)
    with bs show ?thesis unfolding achievable_def by force
  qed
  have only: "t = hardTotal cs \<or> (hasAce cs \<and> t = hardTotal cs + 10)" if "t \<in> achievable cs" for t
  proof -
    from that obtain bs where bs: "aceValuation cs bs" "t = countedTotal cs bs"
      unfolding achievable_def by blast
    then have la: "list_all2 (\<lambda>c b. b \<longrightarrow> rank c = A) cs bs" and le: "count_list bs True \<le> 1"
      by (simp_all add: aceValuation_def)
    from le consider "count_list bs True = 0" | "count_list bs True = 1" by linarith
    then show ?thesis
    proof cases
      case 1
      then show ?thesis using countedTotal_hard[OF la] bs by simp
    next
      case 2
      then show ?thesis using countedTotal_hard[OF la] valuation_needs_ace[OF la] bs by simp
    qed
  qed
  show ?thesis using hard_in soft_in only by auto
qed

lemma soft_valuation_iff:
  "(\<exists>bs. aceValuation cs bs \<and> count_list bs True = 1 \<and> countedTotal cs bs = v)
     \<longleftrightarrow> hasAce cs \<and> v = hardTotal cs + 10"
proof
  assume "\<exists>bs. aceValuation cs bs \<and> count_list bs True = 1 \<and> countedTotal cs bs = v"
  then obtain bs where bs: "aceValuation cs bs" "count_list bs True = 1" "countedTotal cs bs = v"
    by blast
  then have la: "list_all2 (\<lambda>c b. b \<longrightarrow> rank c = A) cs bs" by (simp add: aceValuation_def)
  show "hasAce cs \<and> v = hardTotal cs + 10"
    using countedTotal_hard[OF la] valuation_needs_ace[OF la] bs by simp
next
  assume h: "hasAce cs \<and> v = hardTotal cs + 10"
  then obtain bs where bs: "aceValuation cs bs" "count_list bs True = 1"
    using oneEleven_valuation by blast
  then have "countedTotal cs bs = v"
    using countedTotal_hard[of cs bs] h by (simp add: aceValuation_def)
  with bs show "\<exists>bs. aceValuation cs bs \<and> count_list bs True = 1 \<and> countedTotal cs bs = v"
    by blast
qed


section \<open>The hand total\<close>

text \<open>
  C1. For every hand, the value \<^verbatim>\<open>getCardTotal\<close> returns is the total of some valuation
  that counts at most one Ace as 11; when some such valuation stays at 21 or below, the
  value is the greatest of those; when every one exceeds 21, it is the total with every
  Ace counted as 1, the least of all. \<^verbatim>\<open>hasSoftAce\<close> holds exactly when the value is the
  total of a valuation that counts exactly one Ace as 11. The empty hand gives 0 and
  no soft Ace.
\<close>

theorem getCardTotal_best_total:
  "totalValue (getCardTotal cs) \<in> achievable cs
    \<and> ((\<exists>t \<in> achievable cs. t \<le> 21) \<longrightarrow>
          totalValue (getCardTotal cs) \<le> 21
          \<and> (\<forall>t \<in> achievable cs. t \<le> 21 \<longrightarrow> t \<le> totalValue (getCardTotal cs)))
    \<and> ((\<forall>t \<in> achievable cs. 21 < t) \<longrightarrow>
          totalValue (getCardTotal cs) = countedTotal cs (replicate (length cs) False)
          \<and> (\<forall>t \<in> achievable cs. totalValue (getCardTotal cs) \<le> t))
    \<and> (hasSoftAce (getCardTotal cs) \<longleftrightarrow>
          (\<exists>as11. aceValuation cs as11 \<and> count_list as11 True = 1
                   \<and> countedTotal cs as11 = totalValue (getCardTotal cs)))
    \<and> getCardTotal [] = \<lparr>totalValue = 0, hasSoftAce = False\<rparr>"
  unfolding soft_valuation_iff countedTotal_allOnes
  by (auto simp: getCardTotal_closed achievable_eq hasAce_def hardTotal_def)

text \<open>
  Two Aces and an 8: the valuations reach 10 and 20, and the hand counts a soft 20.
  King, 7 and 5: the only valuation gives 22, and the hand counts 22.
\<close>

theorem getCardTotal_best_total_witness:
  "(\<exists>t \<in> achievable [mkCard ''AC'' CLUBS A, mkCard ''AH'' HEARTS A, mkCard ''8D'' DIAMONDS Rank8].
       t \<le> 21)
   \<and> getCardTotal [mkCard ''AC'' CLUBS A, mkCard ''AH'' HEARTS A, mkCard ''8D'' DIAMONDS Rank8]
       = \<lparr>totalValue = 20, hasSoftAce = True\<rparr>
   \<and> 20 \<in> achievable [mkCard ''AC'' CLUBS A, mkCard ''AH'' HEARTS A, mkCard ''8D'' DIAMONDS Rank8]
   \<and> \<not> (\<exists>t \<in> achievable [mkCard ''AC'' CLUBS A, mkCard ''AH'' HEARTS A,
                             mkCard ''8D'' DIAMONDS Rank8]. t \<le> 21 \<and> 20 < t)
   \<and> (\<exists>as11. aceValuation [mkCard ''AC'' CLUBS A, mkCard ''AH'' HEARTS A,
                             mkCard ''8D'' DIAMONDS Rank8] as11
               \<and> count_list as11 True = 1
               \<and> countedTotal [mkCard ''AC'' CLUBS A, mkCard ''AH'' HEARTS A,
                                mkCard ''8D'' DIAMONDS Rank8] as11 = 20)
   \<and> \<not> (\<exists>t \<in> achievable [mkCard ''KH'' HEARTS K, mkCard ''7S'' SPADES Rank7,
                             mkCard ''5D'' DIAMONDS Rank5]. t \<le> 21)
   \<and> getCardTotal [mkCard ''KH'' HEARTS K, mkCard ''7S'' SPADES Rank7, mkCard ''5D'' DIAMONDS Rank5]
       = \<lparr>totalValue = 22, hasSoftAce = False\<rparr>
   \<and> countedTotal [mkCard ''KH'' HEARTS K, mkCard ''7S'' SPADES Rank7, mkCard ''5D'' DIAMONDS Rank5]
        (replicate 3 False) = 22
   \<and> \<not> (\<exists>t \<in> achievable [mkCard ''KH'' HEARTS K, mkCard ''7S'' SPADES Rank7,
                             mkCard ''5D'' DIAMONDS Rank5]. t < 22)"
proof -
  let ?soft = "[mkCard ''AC'' CLUBS A, mkCard ''AH'' HEARTS A, mkCard ''8D'' DIAMONDS Rank8]"
  let ?bust = "[mkCard ''KH'' HEARTS K, mkCard ''7S'' SPADES Rank7, mkCard ''5D'' DIAMONDS Rank5]"
  have soft: "getCardTotal ?soft = \<lparr>totalValue = 20, hasSoftAce = True\<rparr>"
    by code_simp
  have bust: "getCardTotal ?bust = \<lparr>totalValue = 22, hasSoftAce = False\<rparr>"
    by code_simp
  have len: "length ?bust = 3"
    by simp
  have all_bust: "\<forall>t \<in> achievable ?bust. 21 < t"
    by (simp add: achievable_eq hasAce_def hardTotal_def aceAsOne_def getCardValue_def mkCard_def)
  from getCardTotal_best_total[of ?soft] soft
  have in20: "20 \<in> achievable ?soft"
    by simp
  then have some: "\<exists>t \<in> achievable ?soft. t \<le> 21"
    by (intro bexI[of _ 20]) simp_all
  with getCardTotal_best_total[of ?soft] soft
  have best: "\<forall>t \<in> achievable ?soft. t \<le> 21 \<longrightarrow> t \<le> 20"
    by simp
  from getCardTotal_best_total[of ?soft] soft
  have val: "\<exists>as11. aceValuation ?soft as11 \<and> count_list as11 True = 1
                     \<and> countedTotal ?soft as11 = 20"
    by simp
  from getCardTotal_best_total[of ?bust] bust all_bust len
  have least: "countedTotal ?bust (replicate 3 False) = 22 \<and> (\<forall>t \<in> achievable ?bust. 22 \<le> t)"
    by (metis CardTotal.select_convs(1))
  have no_better: "\<not> (\<exists>t \<in> achievable ?soft. t \<le> 21 \<and> 20 < t)"
    using best by fastforce
  have no_fit: "\<not> (\<exists>t \<in> achievable ?bust. t \<le> 21)"
    using all_bust by fastforce
  have no_less: "\<not> (\<exists>t \<in> achievable ?bust. t < 22)"
    using least by fastforce
  show ?thesis
    using some soft in20 no_better val no_fit bust least no_less by blast
qed

section \<open>The outcome of a round\<close>

lemma hasBlackjack_total: "hasBlackjack cs \<Longrightarrow> totalValue (getCardTotal cs) = 21"
  by (simp add: hasBlackjack_def)

lemma outcome_applyPayout: "outcome (applyPayout g) = outcome g"
  by (simp add: applyPayout_def adjustPlayerBalance_def Let_def)

text \<open>
  C2. \<^verbatim>\<open>evaluateOutcome\<close> records the outcome the first matching rule gives, in this
  order: player blackjack without dealer blackjack; dealer blackjack without player
  blackjack; both blackjacks, a push; player above 21, the dealer wins whatever the
  dealer's total; dealer above 21, the player wins; then the higher total wins and equal
  totals push. With both blackjacks the two totals are 21, so the push is the one of the
  plain comparison.
\<close>

theorem evaluateOutcome_precedence:
  "outcome (evaluateOutcome g) =
     Some (if hasBlackjack (cards (player g)) \<and> \<not> hasBlackjack (cards (dealer g))
             then PlayerWonWithBlackjack
           else if hasBlackjack (cards (dealer g)) \<and> \<not> hasBlackjack (cards (player g))
             then DealerWonWithBlackjack
           else if hasBlackjack (cards (player g)) \<and> hasBlackjack (cards (dealer g))
             then Push
           else if totalValue (getCardTotal (cards (player g))) > 21
             then DealerWon
           else if totalValue (getCardTotal (cards (dealer g))) > 21
             then PlayerWon
           else if totalValue (getCardTotal (cards (player g)))
                     > totalValue (getCardTotal (cards (dealer g)))
             then PlayerWon
           else if totalValue (getCardTotal (cards (dealer g)))
                     > totalValue (getCardTotal (cards (player g)))
             then DealerWon
           else Push)
   \<and> (hasBlackjack (cards (player g)) \<and> hasBlackjack (cards (dealer g)) \<longrightarrow>
         totalValue (getCardTotal (cards (player g))) = 21
         \<and> totalValue (getCardTotal (cards (dealer g))) = 21)"
  using hasBlackjack_total[of "cards (player g)"] hasBlackjack_total[of "cards (dealer g)"]
  by (simp add: evaluateOutcome_def outcome_applyPayout Let_def)

text \<open>
  Both blackjacks push; a player at 22 loses to a dealer at 25 (both above 21).
\<close>

theorem evaluateOutcome_precedence_witness:
  "hasBlackjack [mkCard ''AS'' SPADES A, mkCard ''KS'' SPADES K]
   \<and> hasBlackjack [mkCard ''QH'' HEARTS Q, mkCard ''AD'' DIAMONDS A]
   \<and> outcome (evaluateOutcome
        (engineWith [mkCard ''AS'' SPADES A, mkCard ''KS'' SPADES K]
                    [mkCard ''QH'' HEARTS Q, mkCard ''AD'' DIAMONDS A] 100 0)) = Some Push
   \<and> totalValue (getCardTotal [mkCard ''KH'' HEARTS K, mkCard ''7S'' SPADES Rank7,
                                 mkCard ''5D'' DIAMONDS Rank5]) = 22
   \<and> totalValue (getCardTotal [mkCard ''7D'' DIAMONDS Rank7, mkCard ''8D'' DIAMONDS Rank8,
                                 mkCard ''0C'' CLUBS Rank10]) = 25
   \<and> outcome (evaluateOutcome
        (engineWith [mkCard ''KH'' HEARTS K, mkCard ''7S'' SPADES Rank7,
                     mkCard ''5D'' DIAMONDS Rank5]
                    [mkCard ''7D'' DIAMONDS Rank7, mkCard ''8D'' DIAMONDS Rank8,
                     mkCard ''0C'' CLUBS Rank10] 100 0)) = Some DealerWon"
proof -
  let ?bj1 = "[mkCard ''AS'' SPADES A, mkCard ''KS'' SPADES K]"
  let ?bj2 = "[mkCard ''QH'' HEARTS Q, mkCard ''AD'' DIAMONDS A]"
  let ?p22 = "[mkCard ''KH'' HEARTS K, mkCard ''7S'' SPADES Rank7, mkCard ''5D'' DIAMONDS Rank5]"
  let ?d25 = "[mkCard ''7D'' DIAMONDS Rank7, mkCard ''8D'' DIAMONDS Rank8, mkCard ''0C'' CLUBS Rank10]"
  have bj: "hasBlackjack ?bj1" "hasBlackjack ?bj2"
    by code_simp+
  have nbj: "\<not> hasBlackjack ?p22" "\<not> hasBlackjack ?d25"
    by (simp_all add: hasBlackjack_def)
  have tot: "totalValue (getCardTotal ?p22) = 22" "totalValue (getCardTotal ?d25) = 25"
    by code_simp+
  have "outcome (evaluateOutcome (engineWith ?bj1 ?bj2 100 0)) = Some Push"
    using evaluateOutcome_precedence[of "engineWith ?bj1 ?bj2 100 0"] bj
    by (simp add: engineWith_eq)
  moreover have "outcome (evaluateOutcome (engineWith ?p22 ?d25 100 0)) = Some DealerWon"
    using evaluateOutcome_precedence[of "engineWith ?p22 ?d25 100 0"] nbj tot
    by (simp add: engineWith_eq)
  ultimately show ?thesis
    using bj tot by simp
qed

section \<open>The payout\<close>






section \<open>The dealer's rule\<close>

text \<open>
  C4. \<^verbatim>\<open>shouldHit\<close> is true exactly when the hand's value is below 17, or is 17 with a
  soft Ace; so it is false on a hard 17 and on every value above 17.
\<close>

theorem shouldHit_rule:
  "(shouldHit cs \<longleftrightarrow>
      totalValue (getCardTotal cs) < 17
      \<or> (totalValue (getCardTotal cs) = 17 \<and> hasSoftAce (getCardTotal cs)))
   \<and> (totalValue (getCardTotal cs) = 17 \<and> \<not> hasSoftAce (getCardTotal cs) \<longrightarrow> \<not> shouldHit cs)
   \<and> (totalValue (getCardTotal cs) > 17 \<longrightarrow> \<not> shouldHit cs)"
  by (auto simp: shouldHit_def Let_def)

text \<open>
  The four hands of the dealer's tests: 6 + 9, soft 17 (A + 6), hard 17 (10 + 7), 10 + 8.
\<close>

theorem shouldHit_rule_witness:
  "totalValue (getCardTotal [mkCard ''0H'' HEARTS Rank10, mkCard ''7D'' DIAMONDS Rank7]) = 17
   \<and> \<not> hasSoftAce (getCardTotal [mkCard ''0H'' HEARTS Rank10, mkCard ''7D'' DIAMONDS Rank7])
   \<and> \<not> shouldHit [mkCard ''0H'' HEARTS Rank10, mkCard ''7D'' DIAMONDS Rank7]
   \<and> totalValue (getCardTotal [mkCard ''0H'' HEARTS Rank10, mkCard ''8C'' CLUBS Rank8]) > 17
   \<and> \<not> shouldHit [mkCard ''0H'' HEARTS Rank10, mkCard ''8C'' CLUBS Rank8]
   \<and> getCardTotal [mkCard ''AH'' HEARTS A, mkCard ''6S'' SPADES Rank6]
        = \<lparr>totalValue = 17, hasSoftAce = True\<rparr>
   \<and> shouldHit [mkCard ''AH'' HEARTS A, mkCard ''6S'' SPADES Rank6]
   \<and> totalValue (getCardTotal [mkCard ''6C'' CLUBS Rank6, mkCard ''9D'' DIAMONDS Rank9]) < 17
   \<and> shouldHit [mkCard ''6C'' CLUBS Rank6, mkCard ''9D'' DIAMONDS Rank9]"
proof -
  let ?hard17 = "[mkCard ''0H'' HEARTS Rank10, mkCard ''7D'' DIAMONDS Rank7]"
  let ?h18 = "[mkCard ''0H'' HEARTS Rank10, mkCard ''8C'' CLUBS Rank8]"
  let ?soft17 = "[mkCard ''AH'' HEARTS A, mkCard ''6S'' SPADES Rank6]"
  let ?h15 = "[mkCard ''6C'' CLUBS Rank6, mkCard ''9D'' DIAMONDS Rank9]"
  have t1: "getCardTotal ?hard17 = \<lparr>totalValue = 17, hasSoftAce = False\<rparr>" by code_simp
  have t2: "getCardTotal ?h18 = \<lparr>totalValue = 18, hasSoftAce = False\<rparr>" by code_simp
  have t3: "getCardTotal ?soft17 = \<lparr>totalValue = 17, hasSoftAce = True\<rparr>" by code_simp
  have t4: "getCardTotal ?h15 = \<lparr>totalValue = 15, hasSoftAce = False\<rparr>" by code_simp
  have "\<not> shouldHit ?hard17" using shouldHit_rule[of ?hard17] t1 by simp
  moreover have "\<not> shouldHit ?h18" using shouldHit_rule[of ?h18] t2 by simp
  moreover have "shouldHit ?soft17" using shouldHit_rule[of ?soft17] t3 by simp
  moreover have "shouldHit ?h15" using shouldHit_rule[of ?h15] t4 by simp
  ultimately show ?thesis using t1 t2 t3 t4 by simp
qed

section \<open>Placing a bet\<close>







section \<open>The rounding of doubles\<close>

text \<open>
  \<open>ilog2\<close> is the binary exponent; \<open>fl x\<close> is a 53-bit significand times the unit in the
  last place of \<open>x\<close>, at most half such a unit away from \<open>x\<close>.
\<close>

lemma ilog2_ge_one:
  assumes "1 \<le> x"
  shows "2 powi ilog2 x \<le> x \<and> x < 2 powi (ilog2 x + 1)"
proof -
  define n where "n = nat \<lfloor>x\<rfloor>"
  define L where "L = floorlog 2 n"
  from assms have fl1: "1 \<le> \<lfloor>x\<rfloor>" by linarith
  then have n_pos: "0 < n" by (simp add: n_def)
  from floorlog_bounds[OF n_pos, of 2] have b: "2 ^ (L - 1) \<le> n" "n < 2 ^ L"
    by (simp_all add: L_def)
  from b(2) n_pos have L_pos: "0 < L" by (cases L) simp_all
  have il: "ilog2 x = int L - 1" using assms by (simp add: ilog2_def n_def L_def)
  have nx: "rat_of_nat n \<le> x" "x < rat_of_nat n + 1"
    using fl1 by (simp_all add: n_def) linarith+
  have "(2::rat) ^ (L - 1) \<le> rat_of_nat n"
    using b(1) by (metis of_nat_le_iff of_nat_numeral of_nat_power)
  with nx(1) have lo: "(2::rat) ^ (L - 1) \<le> x" by linarith
  from b(2) have "n + 1 \<le> 2 ^ L" by simp
  then have "rat_of_nat (n + 1) \<le> 2 ^ L"
    by (metis of_nat_le_iff of_nat_numeral of_nat_power)
  with nx(2) have hi: "x < (2::rat) ^ L" by simp
  have e1: "int L - 1 = int (L - 1)" using L_pos by simp
  have "(2::rat) powi (int L - 1) = 2 ^ (L - 1)" unfolding e1 by simp
  moreover have "(2::rat) powi (int L - 1 + 1) = 2 ^ L" by simp
  ultimately show ?thesis using lo hi il by simp
qed

lemma ilog2_less_one:
  assumes "0 < x" "x < 1"
  shows "2 powi ilog2 x \<le> x \<and> x < 2 powi (ilog2 x + 1)"
proof -
  define y where "y = 1 / x"
  define m where "m = nat (\<lceil>y\<rceil> - 1)"
  define L where "L = floorlog 2 m"
  from assms have y1: "1 < y" by (simp add: y_def)
  then have c2: "2 \<le> \<lceil>y\<rceil>" by linarith
  then have m_pos: "0 < m" by (simp add: m_def)
  from floorlog_bounds[OF m_pos, of 2] have b: "2 ^ (L - 1) \<le> m" "m < 2 ^ L"
    by (simp_all add: L_def)
  from b(2) m_pos have L_pos: "0 < L" by (cases L) simp_all
  have il: "ilog2 x = - int L" using assms by (simp add: ilog2_def m_def L_def y_def)
  have my: "rat_of_nat m < y" "y \<le> rat_of_nat m + 1"
    using c2 by (simp_all add: m_def) linarith+
  have "(2::rat) ^ (L - 1) \<le> rat_of_nat m"
    using b(1) by (metis of_nat_le_iff of_nat_numeral of_nat_power)
  with my(1) have lo: "(2::rat) ^ (L - 1) < y" by linarith
  from b(2) have "m + 1 \<le> 2 ^ L" by simp
  then have "rat_of_nat (m + 1) \<le> 2 ^ L"
    by (metis of_nat_le_iff of_nat_numeral of_nat_power)
  with my(2) have hi: "y \<le> (2::rat) ^ L" by simp
  have x_eq: "x = 1 / y" using assms by (simp add: y_def)
  have p1: "(2::rat) powi (- int L) = 1 / 2 ^ L"
    by (simp add: power_int_minus divide_inverse)
  have e1: "- int L + 1 = - int (L - 1)" using L_pos by simp
  have p2: "(2::rat) powi (- int L + 1) = 1 / 2 ^ (L - 1)"
    unfolding e1 by (simp add: power_int_minus divide_inverse)
  have "1 / 2 ^ L \<le> 1 / y" using hi y1 by (simp add: frac_le)
  moreover have "1 / y < 1 / 2 ^ (L - 1)" using lo by (simp add: frac_less2)
  ultimately show ?thesis using il p1 p2 x_eq by simp
qed

lemma ilog2_bounds: "0 < x \<Longrightarrow> 2 powi ilog2 x \<le> x \<and> x < 2 powi (ilog2 x + 1)"
  using ilog2_ge_one[of x] ilog2_less_one[of x] by (cases "1 \<le> x") simp_all

lemma roundTiesToEven_near: "\<bar>of_int (roundTiesToEven q) - q\<bar> \<le> 1 / 2"
proof -
  have "of_int \<lfloor>q\<rfloor> \<le> q" "q < of_int \<lfloor>q\<rfloor> + 1" by linarith+
  then show ?thesis by (auto simp: roundTiesToEven_def Let_def)
qed

lemma fl_nearest:
  assumes "x \<noteq> 0"
  shows "\<bar>fl x - x\<bar> \<le> 2 powi (ilog2 \<bar>x\<bar> - 53)"
proof -
  define u :: rat where "u = 2 powi (ilog2 \<bar>x\<bar> - 52)"
  define m where "m = roundTiesToEven (\<bar>x\<bar> / u)"
  have u_pos: "0 < u" by (simp add: u_def)
  have fl_eq: "fl x = sgn x * of_int m * u"
    using assms by (simp add: fl_def Let_def u_def m_def)
  have x_eq: "x = sgn x * (\<bar>x\<bar> / u) * u"
    using u_pos by (simp add: sgn_mult_abs)
  have "fl x - x = sgn x * (of_int m - \<bar>x\<bar> / u) * u"
    by (subst x_eq) (simp add: fl_eq algebra_simps)
  then have "\<bar>fl x - x\<bar> = \<bar>of_int m - \<bar>x\<bar> / u\<bar> * u"
    using u_pos assms by (simp add: abs_mult abs_sgn_eq)
  also have "\<dots> \<le> (1 / 2) * u"
    using roundTiesToEven_near[of "\<bar>x\<bar> / u"] u_pos unfolding m_def
    by (intro mult_right_mono) simp_all
  also have "(1 / 2) * u = 2 powi (ilog2 \<bar>x\<bar> - 53)"
    by (simp add: u_def power_int_diff)
  finally show ?thesis .
qed

lemma fl_significand:
  assumes "x \<noteq> 0"
  shows "\<exists>m. fl x = sgn x * of_int m * 2 powi (ilog2 \<bar>x\<bar> - 52) \<and> 2 ^ 52 \<le> m \<and> m \<le> 2 ^ 53"
proof -
  define e where "e = ilog2 \<bar>x\<bar>"
  define u :: rat where "u = 2 powi (e - 52)"
  define q where "q = \<bar>x\<bar> / u"
  have u_pos: "0 < u" by (simp add: u_def)
  from assms have "0 < \<bar>x\<bar>" by simp
  from ilog2_bounds[OF this] have bx: "2 powi e \<le> \<bar>x\<bar>" "\<bar>x\<bar> < 2 powi (e + 1)"
    by (simp_all add: e_def)
  have p52: "(2::rat) powi e = 2 ^ 52 * u"
    by (simp add: u_def power_int_diff)
  have p53: "(2::rat) powi (e + 1) = 2 ^ 53 * u"
    by (simp add: u_def power_int_diff power_int_add)
  have lo: "2 ^ 52 \<le> q"
    using bx(1) u_pos unfolding p52 q_def by (simp add: pos_le_divide_eq)
  have hi: "q < 2 ^ 53"
    using bx(2) u_pos unfolding p53 q_def by (simp add: pos_divide_less_eq)
  have flo: "2 ^ 52 \<le> \<lfloor>q\<rfloor>" using lo by (simp add: le_floor_iff)
  have fhi: "\<lfloor>q\<rfloor> < 2 ^ 53" using hi by (simp add: floor_less_iff)
  have r: "\<lfloor>q\<rfloor> \<le> roundTiesToEven q" "roundTiesToEven q \<le> \<lfloor>q\<rfloor> + 1"
    by (simp_all add: roundTiesToEven_def Let_def)
  have "fl x = sgn x * of_int (roundTiesToEven q) * 2 powi (ilog2 \<bar>x\<bar> - 52)"
    using assms by (simp add: fl_def Let_def q_def u_def e_def)
  moreover have "2 ^ 52 \<le> roundTiesToEven q" using flo r(1) by linarith
  moreover have "roundTiesToEven q \<le> 2 ^ 53" using fhi r(2) by linarith
  ultimately show ?thesis by blast
qed

section \<open>The shoe\<close>

lemma call_frame:
  "cutCardPosition (call c dm) = cutCardPosition dm \<and> deckId (call c dm) = deckId dm"
  by (cases c)
     (auto simp: DeckManager_drawCard_def DeckManager_drawCards_def reshuffle_def
           split: sum.splits prod.splits)

lemma calls_frame:
  "cutCardPosition (calls cs dm) = cutCardPosition dm \<and> deckId (calls cs dm) = deckId dm"
  by (induction cs arbitrary: dm) (simp_all add: call_frame)

text \<open>
  The literal \<^verbatim>\<open>0.775\<close> as a double, and the cut card of six decks. Five decks show
  the rounding at work: the exact product is 58.5, the double product lies below it.
\<close>

lemma CUT_CARD_PERCENTAGE_double: "CUT_CARD_PERCENTAGE = 6980579422424269 / 2 ^ 53"
  by code_simp

lemma cut_312: "Math_round (fmul 312 (fsub 1 CUT_CARD_PERCENTAGE)) = 70"
  by code_simp

lemma cut_260: "Math_round (fmul 260 (fsub 1 CUT_CARD_PERCENTAGE)) = 58"
  by code_simp

text \<open>
  C5. \<^verbatim>\<open>setup\<close> builds the deck manager from the count the card service reports for
  the new shoe; the constructor fixes the cut card at
  \<^verbatim>\<open>Math.round(remaining * (1 - CUT_CARD_PERCENTAGE))\<close> of that count, and no later call
  changes it. \<^verbatim>\<open>shouldReshuffle\<close> is true exactly when the count
  of cards left is below the cut card, whatever calls led to that count, and it leaves
  the deck manager as it is. A shoe created with 312 cards has its cut card at 70; it is
  to be reshuffled when 69 cards are left and not when 70 are.
\<close>

theorem shouldReshuffle_cut_card:
  "(createDeck deckCount = Inr (did, n) \<longrightarrow>
      DeckManager_setup createDeck deckCount = Inr (DeckManager_new did n))
   \<and> cutCardPosition (DeckManager_new did n)
     = Math_round (fmul (of_int n) (fsub 1 CUT_CARD_PERCENTAGE))
   \<and> cutCardPosition (calls cs (DeckManager_new did n)) = cutCardPosition (DeckManager_new did n)
   \<and> (shouldReshuffle dm \<longleftrightarrow> remaining dm < cutCardPosition dm)
   \<and> (shouldReshuffle (calls cs (DeckManager_new did n)) \<longleftrightarrow>
        remaining (calls cs (DeckManager_new did n))
          < Math_round (fmul (of_int n) (fsub 1 CUT_CARD_PERCENTAGE)))
   \<and> call ShouldReshuffle dm = dm
   \<and> cutCardPosition (DeckManager_new did 312) = 70
   \<and> (remaining (calls cs (DeckManager_new did 312)) = 69 \<longrightarrow>
        shouldReshuffle (calls cs (DeckManager_new did 312)))
   \<and> (remaining (calls cs (DeckManager_new did 312)) = 70 \<longrightarrow>
        \<not> shouldReshuffle (calls cs (DeckManager_new did 312)))"
proof -
  have new: "cutCardPosition (DeckManager_new d k)
       = Math_round (fmul (of_int k) (fsub 1 CUT_CARD_PERCENTAGE))" for d k
    by (simp add: DeckManager_new_def)
  have fixed: "cutCardPosition (calls cs (DeckManager_new d k))
       = cutCardPosition (DeckManager_new d k)" for d k
    by (simp add: calls_frame)
  have c312: "cutCardPosition (DeckManager_new did 312) = 70"
    using new[of did 312] cut_312 by simp
  show ?thesis
    using new[of did n] fixed[of did n] fixed[of did 312] c312
    by (simp add: shouldReshuffle_def DeckManager_setup_def)
qed

text \<open>
  A shoe created with 312 cards, after one draw that reports 69 cards left, and after
  one that reports 70.
\<close>

theorem shouldReshuffle_cut_card_witness:
  "created ''test-deck-id'' 312 6 = Inr (''test-deck-id'', 312)
   \<and> DeckManager_setup (created ''test-deck-id'' 312) 6
       = Inr \<lparr>deckId = ''test-deck-id'', remaining = 312, cutCardPosition = 70\<rparr>
   \<and> remaining (calls [DrawCard (answering [mkCard ''AS'' SPADES A] 69)]
                    (DeckManager_new ''test-deck-id'' 312)) = 69
   \<and> shouldReshuffle (calls [DrawCard (answering [mkCard ''AS'' SPADES A] 69)]
                            (DeckManager_new ''test-deck-id'' 312))
   \<and> remaining (calls [DrawCard (answering [mkCard ''AS'' SPADES A] 70)]
                      (DeckManager_new ''test-deck-id'' 312)) = 70
   \<and> \<not> shouldReshuffle (calls [DrawCard (answering [mkCard ''AS'' SPADES A] 70)]
                              (DeckManager_new ''test-deck-id'' 312))"
proof -
  let ?dm = "DeckManager_new ''test-deck-id'' 312"
  have r69: "remaining (calls [DrawCard (answering [mkCard ''AS'' SPADES A] 69)] ?dm) = 69"
    by (simp add: DeckManager_drawCard_def answering_def DeckManager_new_def)
  have r70: "remaining (calls [DrawCard (answering [mkCard ''AS'' SPADES A] 70)] ?dm) = 70"
    by (simp add: DeckManager_drawCard_def answering_def DeckManager_new_def)
  from shouldReshuffle_cut_card[where did = "''test-deck-id''"
         and cs = "[DrawCard (answering [mkCard ''AS'' SPADES A] 69)]"] r69
  have "shouldReshuffle (calls [DrawCard (answering [mkCard ''AS'' SPADES A] 69)] ?dm)"
    by blast
  moreover
  from shouldReshuffle_cut_card[where did = "''test-deck-id''"
         and cs = "[DrawCard (answering [mkCard ''AS'' SPADES A] 70)]"] r70
  have "\<not> shouldReshuffle (calls [DrawCard (answering [mkCard ''AS'' SPADES A] 70)] ?dm)"
    by blast
  moreover
  have cr: "created ''test-deck-id'' 312 6 = Inr (''test-deck-id'', 312)"
    by (simp add: created_def)
  from shouldReshuffle_cut_card[where createDeck = "created ''test-deck-id'' 312"
         and deckCount = 6 and did = "''test-deck-id''" and n = 312] cr
  have "DeckManager_setup (created ''test-deck-id'' 312) 6
          = Inr \<lparr>deckId = ''test-deck-id'', remaining = 312, cutCardPosition = 70\<rparr>"
    by (simp add: DeckManager_new_def)
  ultimately show ?thesis using r69 r70 cr by blast
qed

text \<open>
  C8. \<^verbatim>\<open>drawCard\<close> of the deck manager fails whenever the card service answers with a
  number of cards other than one, and then leaves the deck manager as it was; when the
  answer holds one card it returns that card and takes over the reported count of cards
  left. \<^verbatim>\<open>drawCards\<close> compares nothing with the number asked for: whatever cards the
  service answers with are returned, and the reported count is taken over.
\<close>

theorem drawCard_checks_count:
  "(drawCard (deckId dm) 1 = Inr (cs, rem) \<and> length cs \<noteq> 1 \<longrightarrow>
      (\<exists>err. fst (DeckManager_drawCard drawCard dm) = Inl err)
      \<and> snd (DeckManager_drawCard drawCard dm) = dm)
   \<and> (drawCard (deckId dm) 1 = Inr ([c], rem) \<longrightarrow>
      DeckManager_drawCard drawCard dm = (Inr c, dm\<lparr>remaining := rem\<rparr>))
   \<and> (drawCard (deckId dm) n = Inr (cs, rem) \<longrightarrow>
      DeckManager_drawCards drawCard n dm = (Inr cs, dm\<lparr>remaining := rem\<rparr>))"
  by (simp add: DeckManager_drawCard_def DeckManager_drawCards_def)

text \<open>
  The answer of the tests with two cards: \<^verbatim>\<open>drawCard\<close> throws, \<^verbatim>\<open>drawCards(4)\<close> returns
  the two cards. An answer with no card makes \<^verbatim>\<open>drawCard\<close> throw too; an answer with
  one card is returned by it.
\<close>

theorem drawCard_checks_count_witness:
  "answering [mkCard ''AS'' SPADES A, mkCard ''8C'' CLUBS Rank8] 310
       (deckId (DeckManager_new ''test-deck-id'' 312)) 1
     = Inr ([mkCard ''AS'' SPADES A, mkCard ''8C'' CLUBS Rank8], 310)
   \<and> length [mkCard ''AS'' SPADES A, mkCard ''8C'' CLUBS Rank8] \<noteq> 1
   \<and> fst (DeckManager_drawCard
            (answering [mkCard ''AS'' SPADES A, mkCard ''8C'' CLUBS Rank8] 310)
            (DeckManager_new ''test-deck-id'' 312))
       = Inl (Error ''Failed to draw card''
               (Some (Error ''Wrong number of cards drawn.  Expected 1, Received: 2'' None)))
   \<and> snd (DeckManager_drawCard
            (answering [mkCard ''AS'' SPADES A, mkCard ''8C'' CLUBS Rank8] 310)
            (DeckManager_new ''test-deck-id'' 312))
       = DeckManager_new ''test-deck-id'' 312
   \<and> DeckManager_drawCard (answering [] 0) (DeckManager_new ''test-deck-id'' 312)
       = (Inl (Error ''Failed to draw card''
                (Some (Error ''Wrong number of cards drawn.  Expected 1, Received: 0'' None))),
          DeckManager_new ''test-deck-id'' 312)
   \<and> DeckManager_drawCard (answering [mkCard ''AS'' SPADES A] 311)
        (DeckManager_new ''test-deck-id'' 312)
       = (Inr (mkCard ''AS'' SPADES A), (DeckManager_new ''test-deck-id'' 312)\<lparr>remaining := 311\<rparr>)
   \<and> DeckManager_drawCards
        (answering [mkCard ''AS'' SPADES A, mkCard ''8C'' CLUBS Rank8] 310) 4
        (DeckManager_new ''test-deck-id'' 312)
       = (Inr [mkCard ''AS'' SPADES A, mkCard ''8C'' CLUBS Rank8],
          (DeckManager_new ''test-deck-id'' 312)\<lparr>remaining := 310\<rparr>)"
proof -
  let ?dm = "DeckManager_new ''test-deck-id'' 312"
  let ?two = "[mkCard ''AS'' SPADES A, mkCard ''8C'' CLUBS Rank8]"
  have a2: "answering ?two 310 (deckId ?dm) k = Inr (?two, 310)" for k
    by (simp add: answering_def)
  have a1: "answering [mkCard ''AS'' SPADES A] 311 (deckId ?dm) 1
              = Inr ([mkCard ''AS'' SPADES A], 311)"
    by (simp add: answering_def)
  have msg: "fst (DeckManager_drawCard (answering ?two 310) ?dm)
       = Inl (Error ''Failed to draw card''
               (Some (Error ''Wrong number of cards drawn.  Expected 1, Received: 2'' None)))"
    by code_simp
  from drawCard_checks_count[where drawCard = "answering ?two 310" and dm = ?dm
         and cs = ?two and rem = 310 and n = 4] a2
  have "snd (DeckManager_drawCard (answering ?two 310) ?dm) = ?dm"
    and "DeckManager_drawCards (answering ?two 310) 4 ?dm = (Inr ?two, ?dm\<lparr>remaining := 310\<rparr>)"
    by simp_all
  moreover
  from drawCard_checks_count[where drawCard = "answering [mkCard ''AS'' SPADES A] 311"
         and dm = ?dm and c = "mkCard ''AS'' SPADES A" and rem = 311] a1
  have "DeckManager_drawCard (answering [mkCard ''AS'' SPADES A] 311) ?dm
          = (Inr (mkCard ''AS'' SPADES A), ?dm\<lparr>remaining := 311\<rparr>)"
    by simp
  moreover
  have "DeckManager_drawCard (answering [] 0) ?dm
       = (Inl (Error ''Failed to draw card''
                (Some (Error ''Wrong number of cards drawn.  Expected 1, Received: 0'' None))),
          ?dm)"
    by code_simp
  ultimately show ?thesis using a2[of 1] msg by simp
qed

text \<open>
  C9. A successful \<^verbatim>\<open>reshuffle\<close> changes the count of cards left, to the count the card
  service reports, and nothing else: the cut card and the deck identifier stay. No call
  on the deck manager recomputes the cut card, so the threshold of the creation is the
  one in force after any number of draws and reshuffles.
\<close>

theorem reshuffle_keeps_cut_card:
  "(reshuffleDeck (deckId dm) = Inr rem \<longrightarrow>
      reshuffle reshuffleDeck dm = (None, dm\<lparr>remaining := rem\<rparr>)
      \<and> remaining (snd (reshuffle reshuffleDeck dm)) = rem
      \<and> cutCardPosition (snd (reshuffle reshuffleDeck dm)) = cutCardPosition dm
      \<and> deckId (snd (reshuffle reshuffleDeck dm)) = deckId dm)
   \<and> cutCardPosition (calls cs dm) = cutCardPosition dm
   \<and> deckId (calls cs dm) = deckId dm"
  by (simp add: reshuffle_def calls_frame)

text \<open>
  A shoe created with 312 cards and played down to 50 is reshuffled, and the service
  reports 260 cards: the cut card stays at 70; a shoe created with 260 cards has it
  at 58.
\<close>

theorem reshuffle_keeps_cut_card_witness:
  "reshuffled 260 (deckId ((DeckManager_new ''test-deck-id'' 312)\<lparr>remaining := 50\<rparr>)) = Inr 260
   \<and> reshuffle (reshuffled 260) ((DeckManager_new ''test-deck-id'' 312)\<lparr>remaining := 50\<rparr>)
       = (None, \<lparr>deckId = ''test-deck-id'', remaining = 260, cutCardPosition = 70\<rparr>)
   \<and> cutCardPosition (DeckManager_new ''test-deck-id'' 260) = 58"
proof -
  let ?dm = "(DeckManager_new ''test-deck-id'' 312)\<lparr>remaining := 50\<rparr>"
  have a: "reshuffled 260 (deckId ?dm) = Inr 260"
    by (simp add: reshuffled_def)
  have dm: "?dm = \<lparr>deckId = ''test-deck-id'', remaining = 50, cutCardPosition = 70\<rparr>"
    by (simp add: DeckManager_new_def cut_312)
  from reshuffle_keeps_cut_card[where reshuffleDeck = "reshuffled 260" and dm = ?dm and rem = 260] a
  have "reshuffle (reshuffled 260) ?dm = (None, ?dm\<lparr>remaining := 260\<rparr>)"
    by blast
  with dm have "reshuffle (reshuffled 260) ?dm
       = (None, \<lparr>deckId = ''test-deck-id'', remaining = 260, cutCardPosition = 70\<rparr>)"
    by simp
  moreover have "cutCardPosition (DeckManager_new ''test-deck-id'' 260) = 58"
    by (simp add: DeckManager_new_def cut_260)
  ultimately show ?thesis using a by blast
qed

section \<open>The dealer's turn\<close>

text \<open>
  Every card adds at least 1 to the total that counts every Ace as 1, and the value of
  \<^verbatim>\<open>getCardTotal\<close> is that total, or 10 more when an Ace is soft.
\<close>

lemma aceAsOne_pos: "1 \<le> aceAsOne c"
  by (cases "rank c") (simp_all add: aceAsOne_def getCardValue_def)

lemma hardTotal_append: "hardTotal (cs @ [c]) = hardTotal cs + aceAsOne c"
  by (simp add: hardTotal_def)

lemma hardTotal_grows: "hardTotal cs < hardTotal (cs @ [c])"
  using aceAsOne_pos[of c] by (simp add: hardTotal_append)

lemma value_bounds:
  "hardTotal cs \<le> totalValue (getCardTotal cs)
   \<and> totalValue (getCardTotal cs) \<le> hardTotal cs + 10
   \<and> (\<not> hasSoftAce (getCardTotal cs) \<longrightarrow> totalValue (getCardTotal cs) = hardTotal cs)
   \<and> (hasSoftAce (getCardTotal cs) \<longrightarrow> totalValue (getCardTotal cs) = hardTotal cs + 10)"
  by (simp add: getCardTotal_closed)

lemma shouldHit_hard: "shouldHit cs \<Longrightarrow> hardTotal cs < 17"
  using value_bounds[of cs] by (auto simp: shouldHit_def Let_def)

lemma hitDealer_dealer:
  "hitDealer api g = (r, g') \<Longrightarrow>
     (case r of None \<Rightarrow> \<exists>c. cards (dealer g') = cards (dealer g) @ [c]
              | Some err \<Rightarrow> dealer g' = dealer g)"
  by (auto simp: hitDealer_def GameEngine_drawCard_def addCard_def
           split: option.splits sum.splits prod.splits)

text \<open>
  The loop of \<^verbatim>\<open>playThroughDealer\<close> ends: \<^verbatim>\<open>shouldHit\<close> keeps the total with every Ace
  as 1 below 17, and each round that does not throw raises it.
\<close>

termination playThroughDealer
proof (relation "measure (\<lambda>(src, k, g). nat (17 - hardTotal (cards (dealer g))))")
  show "wf (measure (\<lambda>(src, k, g). nat (17 - hardTotal (cards (dealer g)))))"
    by simp
next
  fix src :: "nat \<Rightarrow> drawCard_api" and k :: nat and g x2 :: GameEngine and x1 :: "Error option"
  assume hit: "shouldHit (cards (dealer g))"
    and res: "(x1, x2) = hitDealer (src k) g" and ok: "x1 = None"
  from res ok have "hitDealer (src k) g = (None, x2)" by simp
  from hitDealer_dealer[OF this] obtain c where "cards (dealer x2) = cards (dealer g) @ [c]"
    by auto
  with hardTotal_grows[of "cards (dealer g)" c] shouldHit_hard[OF hit]
  show "((src, k + 1, x2), (src, k, g))
          \<in> measure (\<lambda>(src, k, g). nat (17 - hardTotal (cards (dealer g))))"
    by simp
qed

declare playThroughDealer.simps [simp del]

lemma playThroughDealer_stands:
  "fst (playThroughDealer src k g) = None \<Longrightarrow>
     \<not> shouldHit (cards (dealer (snd (playThroughDealer src k g))))"
proof (induction src k g rule: playThroughDealer.induct)
  case (1 src k g)
  show ?case
  proof (cases "shouldHit (cards (dealer g))")
    case False
    then show ?thesis by (simp add: playThroughDealer.simps[of src k g])
  next
    case True
    obtain r g' where h: "hitDealer (src k) g = (r, g')" by (cases "hitDealer (src k) g")
    show ?thesis
    proof (cases r)
      case None
      with True h have eq: "playThroughDealer src k g = playThroughDealer src (k + 1) g'"
        by (simp add: playThroughDealer.simps[of src k g])
      with "1.prems" "1.IH"[OF True h[symmetric] None] show ?thesis by simp
    next
      case (Some err)
      with True h "1.prems" show ?thesis
        by (simp add: playThroughDealer.simps[of src k g])
    qed
  qed
qed

lemma playThroughDealer_bound:
  "length (cards (dealer (snd (playThroughDealer src k g))))
     \<le> length (cards (dealer g)) + nat (17 - hardTotal (cards (dealer g)))"
proof (induction src k g rule: playThroughDealer.induct)
  case (1 src k g)
  show ?case
  proof (cases "shouldHit (cards (dealer g))")
    case False
    then show ?thesis by (simp add: playThroughDealer.simps[of src k g])
  next
    case True
    obtain r g' where h: "hitDealer (src k) g = (r, g')" by (cases "hitDealer (src k) g")
    show ?thesis
    proof (cases r)
      case None
      with True h have eq: "playThroughDealer src k g = playThroughDealer src (k + 1) g'"
        by (simp add: playThroughDealer.simps[of src k g])
      from hitDealer_dealer[OF h] None obtain c where
        c: "cards (dealer g') = cards (dealer g) @ [c]" by auto
      have "hardTotal (cards (dealer g)) < hardTotal (cards (dealer g'))"
        using c hardTotal_grows[of "cards (dealer g)" c] by simp
      moreover have "hardTotal (cards (dealer g)) < 17" using True by (rule shouldHit_hard)
      ultimately have "1 + nat (17 - hardTotal (cards (dealer g')))
             \<le> nat (17 - hardTotal (cards (dealer g)))" by linarith
      with "1.IH"[OF True h[symmetric] None] c eq show ?thesis by simp
    next
      case (Some err)
      with hitDealer_dealer[OF h] have "dealer g' = dealer g" by simp
      with Some True h show ?thesis
        by (simp add: playThroughDealer.simps[of src k g])
    qed
  qed
qed

text \<open>
  C6, as the claim states it, fails: a soft hand can lose value when a card is added.
  Ace and 5 count 16; with a 6 added the Ace falls back to 1 and the hand counts 12.
\<close>

theorem hand_value_counterexample:
  "getCardTotal [mkCard ''AH'' HEARTS A, mkCard ''5S'' SPADES Rank5]
       = \<lparr>totalValue = 16, hasSoftAce = True\<rparr>
   \<and> getCardTotal ([mkCard ''AH'' HEARTS A, mkCard ''5S'' SPADES Rank5]
                     @ [mkCard ''6D'' DIAMONDS Rank6])
       = \<lparr>totalValue = 12, hasSoftAce = False\<rparr>
   \<and> \<not> (totalValue (getCardTotal ([mkCard ''AH'' HEARTS A, mkCard ''5S'' SPADES Rank5]
                                     @ [mkCard ''6D'' DIAMONDS Rank6]))
          \<ge> totalValue (getCardTotal [mkCard ''AH'' HEARTS A, mkCard ''5S'' SPADES Rank5]))"
  by code_simp

text \<open>
  C6, amended. The value of a hand without a soft Ace grows strictly with every card
  added; the value of any hand drops by at most 9. The total with every Ace counted as 1
  grows strictly with every card and is below 17 whenever \<^verbatim>\<open>shouldHit\<close> holds, and this
  is what makes the loop of \<^verbatim>\<open>playThroughDealer\<close> finite: it adds at most 17 minus that
  total cards to the dealer's hand. \<^verbatim>\<open>shouldHit\<close> is false once the value is 17 or more
  with no soft Ace, and it is false on the dealer's hand whenever the loop ends without
  an error.
\<close>

theorem hand_value_growth:
  "(\<not> hasSoftAce (getCardTotal h) \<longrightarrow>
      totalValue (getCardTotal h) < totalValue (getCardTotal (h @ [c])))
   \<and> totalValue (getCardTotal h) - 9 \<le> totalValue (getCardTotal (h @ [c]))
   \<and> hardTotal h < hardTotal (h @ [c])
   \<and> (shouldHit h \<longrightarrow> hardTotal h < 17)
   \<and> (17 \<le> totalValue (getCardTotal h) \<and> \<not> hasSoftAce (getCardTotal h) \<longrightarrow> \<not> shouldHit h)
   \<and> (fst (playThroughDealer src k g) = None \<longrightarrow>
        \<not> shouldHit (cards (dealer (snd (playThroughDealer src k g)))))
   \<and> length (cards (dealer (snd (playThroughDealer src k g))))
        \<le> length (cards (dealer g)) + nat (17 - hardTotal (cards (dealer g)))"
proof -
  have a: "\<not> hasSoftAce (getCardTotal h) \<longrightarrow>
      totalValue (getCardTotal h) < totalValue (getCardTotal (h @ [c]))"
    using value_bounds[of h] value_bounds[of "h @ [c]"] hardTotal_grows[of h c] by auto
  have b: "totalValue (getCardTotal h) - 9 \<le> totalValue (getCardTotal (h @ [c]))"
    using value_bounds[of h] value_bounds[of "h @ [c]"] hardTotal_grows[of h c] by linarith
  have d: "17 \<le> totalValue (getCardTotal h) \<and> \<not> hasSoftAce (getCardTotal h) \<longrightarrow> \<not> shouldHit h"
    by (auto simp: shouldHit_def Let_def)
  show ?thesis
    using a b d hardTotal_grows[of h c] shouldHit_hard[of h]
      playThroughDealer_stands[of src k g] playThroughDealer_bound[of src k g]
    by blast
qed

text \<open>
  The dealer holds 10 and 2 and the shoe gives 3, 2 and a King: the dealer draws the 3
  and the 2 and stands on a hard 17.
\<close>

theorem hand_value_growth_witness:
  "\<not> hasSoftAce (getCardTotal [mkCard ''0H'' HEARTS Rank10, mkCard ''2D'' DIAMONDS Rank2])
   \<and> totalValue (getCardTotal [mkCard ''0H'' HEARTS Rank10, mkCard ''2D'' DIAMONDS Rank2])
       < totalValue (getCardTotal ([mkCard ''0H'' HEARTS Rank10, mkCard ''2D'' DIAMONDS Rank2]
                                    @ [mkCard ''3C'' CLUBS Rank3]))
   \<and> shouldHit [mkCard ''0H'' HEARTS Rank10, mkCard ''2D'' DIAMONDS Rank2]
   \<and> hardTotal [mkCard ''0H'' HEARTS Rank10, mkCard ''2D'' DIAMONDS Rank2] < 17
   \<and> fst (playThroughDealer
            (dealing [mkCard ''3C'' CLUBS Rank3, mkCard ''2C'' CLUBS Rank2, mkCard ''KC'' CLUBS K]) 0
            ((engineWith [] [mkCard ''0H'' HEARTS Rank10, mkCard ''2D'' DIAMONDS Rank2] 100 0)
               \<lparr>deckManager := Some (DeckManager_new ''test-deck-id'' 312)\<rparr>)) = None
   \<and> \<not> shouldHit (cards (dealer (snd (playThroughDealer
            (dealing [mkCard ''3C'' CLUBS Rank3, mkCard ''2C'' CLUBS Rank2, mkCard ''KC'' CLUBS K]) 0
            ((engineWith [] [mkCard ''0H'' HEARTS Rank10, mkCard ''2D'' DIAMONDS Rank2] 100 0)
               \<lparr>deckManager := Some (DeckManager_new ''test-deck-id'' 312)\<rparr>)))))"
proof -
  let ?h = "[mkCard ''0H'' HEARTS Rank10, mkCard ''2D'' DIAMONDS Rank2]"
  let ?src = "dealing [mkCard ''3C'' CLUBS Rank3, mkCard ''2C'' CLUBS Rank2, mkCard ''KC'' CLUBS K]"
  let ?g = "(engineWith [] ?h 100 0)\<lparr>deckManager := Some (DeckManager_new ''test-deck-id'' 312)\<rparr>"
  have hard: "\<not> hasSoftAce (getCardTotal ?h)" by code_simp
  have hit: "shouldHit ?h" by code_simp
  have ok: "fst (playThroughDealer ?src 0 ?g) = None" by code_simp
  from hand_value_growth[where h = ?h and c = "mkCard ''3C'' CLUBS Rank3"
         and src = ?src and k = 0 and g = ?g] hard hit ok
  have "totalValue (getCardTotal ?h)
          < totalValue (getCardTotal (?h @ [mkCard ''3C'' CLUBS Rank3]))"
    and "hardTotal ?h < 17"
    and "\<not> shouldHit (cards (dealer (snd (playThroughDealer ?src 0 ?g))))"
    by blast+
  with hard hit ok show ?thesis by blast
qed

end
